theory Spec2Isabelle
  imports Main "HOL-Library.Sublist" "HOL-Library.Word"
begin

section \<open>Strings of the Go runtime and library\<close>

text \<open>
  A Go string is a sequence of bytes, here a \<^typ>\<open>string\<close>. \<open>len\<close> counts
  bytes, \<open>strings.Contains\<close> looks for a contiguous run of bytes.
\<close>

definition byte :: "char \<Rightarrow> nat" where
  "byte c = of_char c"

text \<open>
  \<open>strings.ToLower\<close>: on a string of ASCII bytes only (every byte below
  \<open>utf8.RuneSelf = 0x80\<close>) the library maps \<open>A..Z\<close> to \<open>a..z\<close> byte by byte. On any
  other string it applies the Unicode case mapping to the decoded runes; that mapping is
  not part of the repository and is taken as the parameter \<open>uni\<close>.
\<close>

definition lowerByte :: "char \<Rightarrow> char" where
  "lowerByte c = (if 65 \<le> byte c \<and> byte c \<le> 90 then char_of (byte c + 32) else c)"

definition isASCII :: "string \<Rightarrow> bool" where
  "isASCII s = list_all (\<lambda>c. byte c < 128) s"

definition ToLower :: "(string \<Rightarrow> string) \<Rightarrow> string \<Rightarrow> string" where
  "ToLower uni s = (if isASCII s then map lowerByte s else uni s)"

fun Contains :: "string \<Rightarrow> string \<Rightarrow> bool" where
  "Contains [] substr = (substr = [])"
| "Contains (c # s) substr = (prefix substr (c # s) \<or> Contains s substr)"

text \<open>
  \<open>strconv.Atoi\<close> on a short string (the only use here passes three characters, far
  below the length at which the library can report a range error): an optional sign,
  then at least one digit and nothing but digits. \<open>None\<close> is the syntax error, with
  which the library returns the value 0.
\<close>

definition isDigit :: "char \<Rightarrow> bool" where
  "isDigit ch = (48 \<le> byte ch \<and> byte ch \<le> 57)"

fun atoiDigits :: "int \<Rightarrow> string \<Rightarrow> int option" where
  "atoiDigits n [] = Some n"
| "atoiDigits n (ch # s) =
     (if isDigit ch then atoiDigits (n * 10 + (int (byte ch) - 48)) s else None)"

definition Atoi :: "string \<Rightarrow> int option" where
  "Atoi s0 =
     (case s0 of
        [] \<Rightarrow> None
      | c0 # rest \<Rightarrow>
          let s = (if c0 = CHR ''-'' \<or> c0 = CHR ''+'' then rest else s0) in
          if length s < 1 then None
          else (case atoiDigits 0 s of
                  None \<Rightarrow> None
                | Some n \<Rightarrow> Some (if c0 = CHR ''-'' then - n else n)))"

section \<open>The response classifier\<close>

definition ErrTimeout :: string where
  "ErrTimeout = ''The connection to the mail server has timed out''"
definition ErrNoSuchHost :: string where
  "ErrNoSuchHost = ''Mail server does not exist''"
definition ErrServerUnavailable :: string where
  "ErrServerUnavailable = ''Mail server is unavailable''"
definition ErrBlocked :: string where
  "ErrBlocked = ''Blocked by mail server''"
definition ErrTryAgainLater :: string where
  "ErrTryAgainLater = ''Try again later''"
definition ErrFullInbox :: string where
  "ErrFullInbox = ''Recipient out of disk space''"
definition ErrTooManyRCPT :: string where
  "ErrTooManyRCPT = ''Too many recipients''"
definition ErrNoRelay :: string where
  "ErrNoRelay = ''Not an open relay''"
definition ErrMailboxBusy :: string where
  "ErrMailboxBusy = ''Mailbox busy''"
definition ErrExceededMessagingLimits :: string where
  "ErrExceededMessagingLimits = ''Messaging limits have been exceeded''"
definition ErrNotAllowed :: string where
  "ErrNotAllowed = ''Not Allowed''"
definition ErrNeedMAILBeforeRCPT :: string where
  "ErrNeedMAILBeforeRCPT = ''Need MAIL before RCPT''"
definition ErrRCPTHasMoved :: string where
  "ErrRCPTHasMoved = ''Recipient has moved''"

record LookupError =
  Code :: int
  Message :: string
  Details :: string

definition newLookupError :: "int \<Rightarrow> string \<Rightarrow> string \<Rightarrow> LookupError" where
  "newLookupError code message details =
     \<lparr>Code = code, Message = message, Details = details\<rparr>"

text \<open>
  \<open>insContains\<close>: the loop over the substrings returns at the first one found in the
  lowered string.
\<close>

fun insContains :: "(string \<Rightarrow> string) \<Rightarrow> string \<Rightarrow> string list \<Rightarrow> bool" where
  "insContains uni str [] = False"
| "insContains uni str (subStr # subStrs) =
     (if Contains (ToLower uni str) (ToLower uni subStr) then True
      else insContains uni str subStrs)"

definition parseBasicErr :: "(string \<Rightarrow> string) \<Rightarrow> int \<Rightarrow> string \<Rightarrow> LookupError" where
  "parseBasicErr uni status errStr =
     (if insContains uni errStr
           [''spamhaus'', ''proofpoint'', ''cloudmark'', ''banned'', ''blocked'', ''denied'']
      then newLookupError status ErrBlocked errStr
      else if insContains uni errStr [''timeout'']
      then newLookupError status ErrTimeout errStr
      else if insContains uni errStr [''no such host'']
      then newLookupError status ErrNoSuchHost errStr
      else if insContains uni errStr [''unavailable'']
      then newLookupError status ErrServerUnavailable errStr
      else newLookupError status errStr errStr)"

definition notFoundPhrases :: "string list" where
  "notFoundPhrases =
     [''undeliverable'', ''does not exist'', ''may not exist'', ''user unknown'',
      ''user not found'', ''invalid address'', ''recipient invalid'',
      ''recipient rejected'', ''address rejected'', ''no mailbox'']"

text \<open>
  \<open>ParseSMTPError\<close> takes the text \<open>err.Error()\<close> of a non-nil error; \<open>None\<close> is the
  nil \<open>*LookupError\<close>. The source converts the first three runes of the text; a
  conversion that succeeds needs three ASCII characters (sign or digits), and these are
  the first three bytes, so the model converts \<open>take 3 errStr\<close>. Where the conversion
  fails the source passes on the value 0 that \<open>strconv.Atoi\<close> returns with its error.
\<close>

definition ParseSMTPError :: "(string \<Rightarrow> string) \<Rightarrow> string \<Rightarrow> LookupError option" where
  "ParseSMTPError uni errStr =
     (if length errStr < 3 then Some (parseBasicErr uni 0 errStr)
      else case Atoi (take 3 errStr) of
        None \<Rightarrow> Some (parseBasicErr uni 0 errStr)
      | Some status \<Rightarrow>
          if status > 400 then
            if insContains uni errStr notFoundPhrases
            then Some (newLookupError status ErrServerUnavailable errStr)
            else if status = 421 then Some (newLookupError status ErrTryAgainLater errStr)
            else if status = 450 then Some (newLookupError status ErrMailboxBusy errStr)
            else if status = 451
            then Some (newLookupError status ErrExceededMessagingLimits errStr)
            else if status = 452 then
              if insContains uni errStr [''full'', ''space'', ''over quota'', ''insufficient'']
              then Some (newLookupError status ErrFullInbox errStr)
              else Some (newLookupError status ErrTooManyRCPT errStr)
            else if status = 503
            then Some (newLookupError status ErrNeedMAILBeforeRCPT errStr)
            else if status = 550 then
              if insContains uni errStr
                   [''spamhaus'', ''proofpoint'', ''cloudmark'', ''banned'', ''blacklisted'',
                    ''blocked'', ''block list'', ''denied'']
              then Some (newLookupError status ErrBlocked errStr)
              else Some (newLookupError status ErrServerUnavailable errStr)
            else if status = 551 then Some (newLookupError status ErrRCPTHasMoved errStr)
            else if status = 552 then Some (newLookupError status ErrFullInbox errStr)
            else if status = 553 then Some (newLookupError status ErrNoRelay errStr)
            else if status = 554 then Some (newLookupError status ErrNotAllowed errStr)
            else Some (parseBasicErr uni status errStr)
          else None)"

section \<open>The world outside the repository\<close>

text \<open>
  The result of a probe, and a Go \<open>error\<close> value as the callers of this package see it:
  either a \<open>*LookupError\<close> stored in the interface (\<open>None\<close> being the nil pointer, which
  \<open>ParseSMTPError\<close> returns for a status of at most 400), or any other error, kept by its
  text. A returned \<open>error option\<close> of \<open>None\<close> is the nil interface.
\<close>

record SMTP =
  HostExists :: bool
  FullInbox :: bool
  CatchAll :: bool
  Deliverable :: bool
  Disabled :: bool
  UsingAPI :: bool

definition zeroSMTP :: SMTP where
  "zeroSMTP = \<lparr>HostExists = False, FullInbox = False, CatchAll = False,
     Deliverable = False, Disabled = False, UsingAPI = False\<rparr>"

datatype error = Lookup "LookupError option" | Other string

text \<open>
  The calls made on an \<open>smtp.Client\<close>. A client, with the server behind it, is the
  function that gives, for the calls made on it so far (the last one being the current
  call), the text of the error it returns, \<open>None\<close> for nil.
\<close>

datatype smtp_cmd = Hello string | Mail string | Rcpt string | Quit

type_synonym client = "smtp_cmd list \<Rightarrow> string option"

typedecl DialerProvider

text \<open>
  What the code reads from outside \<open>src/\<close>: the Unicode branch of \<open>strings.ToLower\<close>,
  \<open>DomainToASCII\<close>, the table \<open>freeDomains\<close>, the constant \<open>smtpPort\<close>, the outcome of
  \<open>dialSMTP\<close> (a dial raced against a timer: the error text or the client), and the 32
  characters that \<open>GenerateRandomEmail\<close> draws.
\<close>

record world =
  unicodeLower :: "string \<Rightarrow> string"
  DomainToASCII :: "string \<Rightarrow> string"
  freeDomains :: "string \<Rightarrow> bool"
  smtpPort :: string
  dialSMTP :: "string \<Rightarrow> string \<Rightarrow> DialerProvider option \<Rightarrow> string + client"
  randomLocalPart :: string

record MX =
  Host :: string
  Pref :: "16 word"

record Mx =
  HasMXRecord :: bool
  Records :: "MX list"

record apiVerifier =
  isSupported :: "string \<Rightarrow> bool"
  check :: "string \<Rightarrow> string \<Rightarrow> SMTP option \<times> error option"

text \<open>
  The fields of \<open>Verifier\<close> that the SMTP and MX checks read. \<open>apiVerifiers\<close> is a Go map;
  the list holds its entries in the order in which \<open>range\<close> visits them in this
  execution (Go leaves that order unspecified). \<open>mxResolver\<close> is the resolver's
  \<open>LookupMX\<close>: the records and the text of its error, which may come together.
\<close>

record Verifier =
  smtpCheckEnabled :: bool
  catchAllCheckEnabled :: bool
  fromEmail :: string
  helloName :: string
  proxyURI :: string
  apiVerifiers :: "(string \<times> apiVerifier) list"
  dialerProvider :: "DialerProvider option"
  mxResolver :: "string \<Rightarrow> MX list \<times> string option"

section \<open>MX lookup\<close>

definition CheckMX :: "world \<Rightarrow> Verifier \<Rightarrow> string \<Rightarrow> Mx option \<times> error option" where
  "CheckMX w v domain0 =
     (let domain = DomainToASCII w domain0;
          (mx, err) = mxResolver v domain
      in if err \<noteq> None \<and> length mx = 0 then (None, map_option Other err)
         else (Some \<lparr>HasMXRecord = length mx > 0, Records = mx\<rparr>, None))"

section \<open>The SMTP probe\<close>

definition IsFreeDomain :: "world \<Rightarrow> string \<Rightarrow> bool" where
  "IsFreeDomain w domain = freeDomains w domain"

definition GenerateRandomEmail :: "world \<Rightarrow> string \<Rightarrow> string" where
  "GenerateRandomEmail w domain = randomLocalPart w @ ''@'' @ domain"

text \<open>
  \<open>newSMTPClient\<close>: the loop over the hosts, with the errors collected so far; the first
  host that \<open>dialSMTP\<close> connects wins, and when none does the first error is returned.
\<close>

fun newSMTPClient ::
  "world \<Rightarrow> string list \<Rightarrow> string \<Rightarrow> DialerProvider option \<Rightarrow> string list
    \<Rightarrow> string + (client \<times> string)" where
  "newSMTPClient w [] proxy dp errs =
     (case errs of
        e # _ \<Rightarrow> Inl e
      | [] \<Rightarrow> Inl ''Unexpected response dialing SMTP server'')"
| "newSMTPClient w (h # hosts) proxy dp errs =
     (case dialSMTP w (h @ smtpPort w) proxy dp of
        Inl err \<Rightarrow> newSMTPClient w hosts proxy dp (errs @ [err])
      | Inr c \<Rightarrow> Inr (c, h))"

text \<open>
  The vendor short-circuit: the outer loop runs over the registered verifiers, the inner
  loop over the hosts; the first supported host of a verifier ends both, with that
  verifier's \<open>check\<close>, whose result (when not nil) is tagged \<open>UsingAPI\<close>. \<open>None\<close>: both
  loops ran to their end.
\<close>

fun checkHosts ::
  "(string \<Rightarrow> string) \<Rightarrow> apiVerifier \<Rightarrow> string list \<Rightarrow> string \<Rightarrow> string
    \<Rightarrow> (SMTP option \<times> error option) option" where
  "checkHosts uni a [] domain username = None"
| "checkHosts uni a (mx # hosts) domain username =
     (if isSupported a (ToLower uni mx) then
        (case check a domain username of
           (res, err) \<Rightarrow> Some (map_option (\<lambda>r. r\<lparr>UsingAPI := True\<rparr>) res, err))
      else checkHosts uni a hosts domain username)"

fun checkByAPI ::
  "(string \<Rightarrow> string) \<Rightarrow> apiVerifier list \<Rightarrow> string list \<Rightarrow> string \<Rightarrow> string
    \<Rightarrow> (SMTP option \<times> error option) option" where
  "checkByAPI uni [] hosts domain username = None"
| "checkByAPI uni (a # as) hosts domain username =
     (case checkHosts uni a hosts domain username of
        Some r \<Rightarrow> Some r
      | None \<Rightarrow> checkByAPI uni as hosts domain username)"

text \<open>
  The switch on the classification of the random recipient's rejection. A Go case does
  not fall into the next one unless it says \<open>fallthrough\<close>: only the third case does.
\<close>

definition rcptSwitch :: "string \<Rightarrow> SMTP \<Rightarrow> SMTP" where
  "rcptSwitch msg ret =
     (if msg = ErrFullInbox then ret\<lparr>FullInbox := True\<rparr>
      else if msg = ErrNotAllowed then ret\<lparr>Disabled := True\<rparr>
      else if msg = ErrServerUnavailable then ret\<lparr>CatchAll := False\<rparr>
      else ret\<lparr>CatchAll := False\<rparr>)"

text \<open>
  The catch-all block, entered after \<open>MAIL\<close>: the flag is set, the random recipient is
  probed, and a rejection that classifies to an error goes through the switch. It
  returns the result so far and the calls made on the client.
\<close>

definition catchAllProbe ::
  "world \<Rightarrow> client \<Rightarrow> string \<Rightarrow> SMTP \<Rightarrow> smtp_cmd list \<Rightarrow> SMTP \<times> smtp_cmd list" where
  "catchAllProbe w c domain ret0 t =
     (let ret = ret0\<lparr>CatchAll := True\<rparr>;
          randomEmail = GenerateRandomEmail w domain;
          t' = t @ [Rcpt randomEmail]
      in case c t' of
           None \<Rightarrow> (ret, t')
         | Some err \<Rightarrow>
             (case ParseSMTPError (unicodeLower w) err of
                None \<Rightarrow> (ret, t')
              | Some e \<Rightarrow> (rcptSwitch (Message e) ret, t')))"

text \<open>
  \<open>CheckSMTPForMX\<close> returns the result, the error, and the calls made on the client in
  their order; the deferred \<open>Quit\<close> is the last call on every return after the client
  exists.
\<close>

definition CheckSMTPForMX ::
  "world \<Rightarrow> Verifier \<Rightarrow> string list \<Rightarrow> string \<Rightarrow> string
    \<Rightarrow> (SMTP option \<times> error option) \<times> smtp_cmd list" where
  "CheckSMTPForMX w v hosts domain username =
     (if length hosts < 1 then ((None, None), [])
      else
        (case checkByAPI (unicodeLower w) (map snd (apiVerifiers v)) hosts domain username of
           Some r \<Rightarrow> (r, [])
         | None \<Rightarrow>
            (let ret = zeroSMTP;
                 email = username @ ''@'' @ domain
             in (case newSMTPClient w hosts (proxyURI v) (dialerProvider v) [] of
                   Inl err \<Rightarrow>
                     ((Some ret, Some (Lookup (ParseSMTPError (unicodeLower w) err))), [])
                 | Inr (c, h) \<Rightarrow>
                    (let t1 = [Hello (helloName v)] in
                     (case c t1 of
                        Some err \<Rightarrow>
                          ((Some ret, Some (Lookup (ParseSMTPError (unicodeLower w) err))),
                           t1 @ [Quit])
                      | None \<Rightarrow>
                         (let t2 = t1 @ [Mail (fromEmail v)] in
                          (case c t2 of
                             Some err \<Rightarrow>
                               ((Some ret,
                                 Some (Lookup (ParseSMTPError (unicodeLower w) err))),
                                t2 @ [Quit])
                           | None \<Rightarrow>
                              (let ret1 = ret\<lparr>HostExists := True\<rparr>;
                                   probing =
                                     (catchAllCheckEnabled v \<and> \<not> IsFreeDomain w domain);
                                   (ret2, t3) =
                                     (if probing then catchAllProbe w c domain ret1 t2
                                      else (ret1, t2))
                               in if probing \<and> CatchAll ret2
                                  then ((Some ret2, None), t3 @ [Quit])
                                  else if username = []
                                  then ((Some ret2, None), t3 @ [Quit])
                                  else
                                    (let t4 = t3 @ [Rcpt email] in
                                     (case c t4 of
                                        Some err \<Rightarrow>
                                          ((Some ret2,
                                            Some (Lookup
                                              (ParseSMTPError (unicodeLower w) err))),
                                           t4 @ [Quit])
                                      | None \<Rightarrow>
                                          ((Some (ret2\<lparr>Deliverable := True\<rparr>), None),
                                           t4 @ [Quit]))))))))))))"

definition CheckSMTP ::
  "world \<Rightarrow> Verifier \<Rightarrow> string \<Rightarrow> string
    \<Rightarrow> (SMTP option \<times> error option) \<times> smtp_cmd list" where
  "CheckSMTP w v domain0 username =
     (if \<not> smtpCheckEnabled v then ((None, None), [])
      else
        let domain = DomainToASCII w domain0;
            (mxRecords, err) = mxResolver v domain
        in case err of
             Some e \<Rightarrow>
               ((Some zeroSMTP, Some (Lookup (ParseSMTPError (unicodeLower w) e))), [])
           | None \<Rightarrow>
               if length mxRecords = 0
               then ((Some zeroSMTP,
                      Some (Lookup (Some (newLookupError 0 ErrNoSuchHost
                                            ''No MX records found'')))), [])
               else CheckSMTPForMX w v (map Host mxRecords) domain username)"

section \<open>The specification's tables, and worlds to evaluate in\<close>

text \<open>
  The code-to-category table as the specification words it, for the eight codes that
  map to one category each.
\<close>

definition codeCategoryTable :: "(int \<times> string) list" where
  "codeCategoryTable =
     [(421, ErrTryAgainLater), (450, ErrMailboxBusy), (451, ErrExceededMessagingLimits),
      (503, ErrNeedMAILBeforeRCPT), (551, ErrRCPTHasMoved), (552, ErrFullInbox),
      (553, ErrNoRelay), (554, ErrNotAllowed)]"

text \<open>
  The specification's reading of the vendor short-circuit, "first host match wins": the
  hosts are walked in order, and the first host that some verifier supports selects that
  verifier.
\<close>

fun firstHostMatch ::
  "(string \<Rightarrow> string) \<Rightarrow> apiVerifier list \<Rightarrow> string list \<Rightarrow> apiVerifier option" where
  "firstHostMatch uni as [] = None"
| "firstHostMatch uni as (mx # hosts) =
     (case find (\<lambda>a. isSupported a (ToLower uni mx)) as of
        Some a \<Rightarrow> Some a
      | None \<Rightarrow> firstHostMatch uni as hosts)"

text \<open>A verifier recognizes a host list when it supports one of its (lowered) hosts.\<close>

definition recognizes :: "(string \<Rightarrow> string) \<Rightarrow> string list \<Rightarrow> apiVerifier \<Rightarrow> bool" where
  "recognizes uni hosts a = list_ex (\<lambda>mx. isSupported a (ToLower uni mx)) hosts"

definition tagUsingAPI :: "SMTP option \<times> error option \<Rightarrow> SMTP option \<times> error option" where
  "tagUsingAPI r =
     (case r of (res, err) \<Rightarrow> (map_option (\<lambda>s. s\<lparr>UsingAPI := True\<rparr>) res, err))"

text \<open>
  Concrete worlds. A memoryless server answers each call by itself; \<open>rejectRcpt msg\<close>
  accepts \<open>EHLO\<close> and \<open>MAIL\<close> and rejects every \<open>RCPT\<close> with \<open>msg\<close>. In \<open>exampleWorld c\<close>
  the host \<open>mx1.example.org.\<close> connects to the client \<open>c\<close> and every other host fails to
  resolve; all its strings are ASCII, so the Unicode branch of \<open>ToLower\<close> is never
  taken. \<open>vendorFor host res\<close> is a verifier that supports exactly \<open>host\<close> and whose
  check answers \<open>res\<close>.
\<close>

definition memoryless :: "(smtp_cmd \<Rightarrow> string option) \<Rightarrow> client" where
  "memoryless f t = (case rev t of [] \<Rightarrow> None | c # _ \<Rightarrow> f c)"

definition rejectRcpt :: "string \<Rightarrow> client" where
  "rejectRcpt msg = memoryless (\<lambda>c. case c of Rcpt to \<Rightarrow> Some msg | _ \<Rightarrow> None)"

definition exampleWorld :: "client \<Rightarrow> world" where
  "exampleWorld c =
     \<lparr>unicodeLower = (\<lambda>s. s),
      DomainToASCII = (\<lambda>d. d),
      freeDomains = (\<lambda>d. d = ''gmail.com''),
      smtpPort = '':25'',
      dialSMTP = (\<lambda>addr proxy dp.
         if addr = ''mx1.example.org.:25'' then Inr c
         else Inl ''dial tcp: lookup mx0.example.org.: no such host''),
      randomLocalPart = ''k3Jd82hsQp0zLm4xVb7nTy1cWe9rUa5G''\<rparr>"

definition exampleVerifier ::
  "(string \<times> apiVerifier) list \<Rightarrow> (string \<Rightarrow> MX list \<times> string option) \<Rightarrow> Verifier" where
  "exampleVerifier vendors resolver =
     \<lparr>smtpCheckEnabled = True, catchAllCheckEnabled = True,
      fromEmail = ''user@example.org'', helloName = ''localhost'', proxyURI = [],
      apiVerifiers = vendors, dialerProvider = None, mxResolver = resolver\<rparr>"

definition vendorFor :: "string \<Rightarrow> SMTP \<Rightarrow> apiVerifier" where
  "vendorFor host res =
     \<lparr>isSupported = (\<lambda>h. h = host), check = (\<lambda>d u. (Some res, None))\<rparr>"

section \<open>Evaluation and auxiliary facts\<close>

lemmas Err_defs =
  ErrTimeout_def ErrNoSuchHost_def ErrServerUnavailable_def ErrBlocked_def
  ErrTryAgainLater_def ErrFullInbox_def ErrTooManyRCPT_def ErrNoRelay_def
  ErrMailboxBusy_def ErrExceededMessagingLimits_def ErrNotAllowed_def
  ErrNeedMAILBeforeRCPT_def ErrRCPTHasMoved_def

lemmas classifier_defs =
  ParseSMTPError_def parseBasicErr_def Atoi_def isDigit_def byte_def
  notFoundPhrases_def ToLower_def isASCII_def lowerByte_def newLookupError_def
  char_of_def bit_Suc_0_iff

lemmas world_defs =
  exampleWorld_def exampleVerifier_def memoryless_def rejectRcpt_def vendorFor_def
  IsFreeDomain_def GenerateRandomEmail_def zeroSMTP_def

lemmas probe_defs =
  CheckSMTPForMX_def catchAllProbe_def rcptSwitch_def

lemma checkHosts_recognizes:
  "checkHosts uni a hosts domain username =
     (if recognizes uni hosts a then Some (tagUsingAPI (check a domain username)) else None)"
  by (induction hosts) (simp_all add: recognizes_def tagUsingAPI_def split: prod.splits)

lemma checkByAPI_find:
  "checkByAPI uni as hosts domain username =
     map_option (\<lambda>a. tagUsingAPI (check a domain username)) (find (recognizes uni hosts) as)"
  by (induction as) (simp_all add: checkHosts_recognizes)

lemma catchAllProbe_result:
  assumes "catchAllProbe w c domain ret t = (ret', t')"
  shows "t' = t @ [Rcpt (GenerateRandomEmail w domain)]"
    and "Deliverable ret' = Deliverable ret"
    and "\<not> FullInbox ret \<Longrightarrow> \<not> Disabled ret \<Longrightarrow> \<not> (FullInbox ret' \<and> Disabled ret')"
  using assms
  by (auto simp: catchAllProbe_def rcptSwitch_def Let_def split: option.splits if_splits)

section \<open>The response classifier: claims C1 and C2\<close>

text \<open>
  Claim C1, as amended. For every error text of at least three characters whose first
  three characters convert to a status code of the table (421, 450, 451, 503, 551, 552,
  553, 554), and which contains none of the "address not found" phrases,
  \<open>ParseSMTPError\<close> returns that code, the table's category for it, and the text as
  details, whatever the rest of the text is.
\<close>

theorem ParseSMTPError_code_table:
  assumes "3 \<le> length errStr"
    and "Atoi (take 3 errStr) = Some status"
    and "map_of codeCategoryTable status = Some category"
    and "\<not> insContains uni errStr notFoundPhrases"
  shows "ParseSMTPError uni errStr
           = Some \<lparr>Code = status, Message = category, Details = errStr\<rparr>"
  using assms
  by (simp add: ParseSMTPError_def codeCategoryTable_def newLookupError_def split: if_splits)

text \<open>
  The theorem at the reply \<open>421 4.7.0 Try again later\<close>. Here and below the texts are
  ASCII, so the Unicode branch of \<open>ToLower\<close> is never taken; the identity stands in
  for it.
\<close>

theorem ParseSMTPError_code_table_witness:
  "ParseSMTPError (\<lambda>s. s) ''421 4.7.0 Try again later''
     = Some \<lparr>Code = 421, Message = ErrTryAgainLater,
          Details = ''421 4.7.0 Try again later''\<rparr>"
  by (rule ParseSMTPError_code_table) (simp_all add: classifier_defs codeCategoryTable_def)

text \<open>
  Claim C1 as stated fails: the category is not independent of the surrounding text. A
  reply with the code 554, which the table maps to not-allowed, is classified as server
  unavailable when its text holds the phrase "address rejected".
\<close>

theorem ParseSMTPError_code_table_depends_on_text:
  "Atoi (take 3 ''554 5.7.1 <a@b.c>: Recipient address rejected: Access denied'') = Some 554
   \<and> map_of codeCategoryTable 554 = Some ErrNotAllowed
   \<and> map_option Message
       (ParseSMTPError (\<lambda>s. s)
          ''554 5.7.1 <a@b.c>: Recipient address rejected: Access denied'')
     = Some ErrServerUnavailable
   \<and> ErrServerUnavailable \<noteq> ErrNotAllowed"
  by (simp add: classifier_defs codeCategoryTable_def Err_defs)

text \<open>
  Claim C2, as amended. For every error text of at least three characters whose first
  three characters convert to a status code above 400, and which contains one of the
  "address not found" phrases (case-insensitively), \<open>ParseSMTPError\<close> classifies it as
  server unavailable, whatever the code is: a code that maps elsewhere (550, 554, ...) or
  a code outside the table.
\<close>

theorem ParseSMTPError_not_found_phrase:
  assumes "3 \<le> length errStr"
    and "Atoi (take 3 errStr) = Some status"
    and "400 < status"
    and "insContains uni errStr notFoundPhrases"
  shows "ParseSMTPError uni errStr
           = Some \<lparr>Code = status, Message = ErrServerUnavailable, Details = errStr\<rparr>"
  using assms by (simp add: ParseSMTPError_def newLookupError_def)

text \<open>The theorem at the specification's scenario, a 550 reply with "does not exist".\<close>

theorem ParseSMTPError_not_found_phrase_witness:
  "ParseSMTPError (\<lambda>s. s)
     ''550 5.1.1 The email account that you tried to reach does not exist''
     = Some \<lparr>Code = 550, Message = ErrServerUnavailable,
          Details = ''550 5.1.1 The email account that you tried to reach does not exist''\<rparr>"
  by (rule ParseSMTPError_not_found_phrase) (simp_all add: classifier_defs)

text \<open>
  Claim C2 as stated fails for a text with no status code and for a status code of at
  most 400: the phrases are looked for only under a status above 400. A text without a
  code that holds "user unknown" keeps its own text as category, and a 354 reply that
  holds it is no error at all.
\<close>

theorem ParseSMTPError_not_found_phrase_needs_status:
  "insContains (\<lambda>s. s) ''User unknown in virtual mailbox table'' notFoundPhrases
   \<and> map_option Message (ParseSMTPError (\<lambda>s. s) ''User unknown in virtual mailbox table'')
       = Some ''User unknown in virtual mailbox table''
   \<and> ''User unknown in virtual mailbox table'' \<noteq> ErrServerUnavailable
   \<and> insContains (\<lambda>s. s) ''354 user unknown'' notFoundPhrases
   \<and> ParseSMTPError (\<lambda>s. s) ''354 user unknown'' = None"
  by (simp add: classifier_defs Err_defs)

section \<open>The facade and the MX lookup: claims C6, C8 and C10\<close>

text \<open>
  Claim C8. With SMTP checking disabled, \<open>CheckSMTP\<close> returns no result and no error
  (and makes no call on any client), for every domain and username.
\<close>

theorem CheckSMTP_disabled:
  "\<not> smtpCheckEnabled v \<Longrightarrow> CheckSMTP w v domain username = ((None, None), [])"
  by (simp add: CheckSMTP_def)

text \<open>The theorem at a domain and a username that are not well formed.\<close>

theorem CheckSMTP_disabled_witness:
  "CheckSMTP (exampleWorld (rejectRcpt ''550 5.1.1 user unknown''))
     ((exampleVerifier [] (\<lambda>d. ([], None)))\<lparr>smtpCheckEnabled := False\<rparr>)
     ''not a domain!'' ''a b@c'' = ((None, None), [])"
  by (rule CheckSMTP_disabled) (simp add: exampleVerifier_def)

text \<open>
  Claim C6, as amended. With SMTP checking enabled, when the resolver reports an error or
  returns no record, \<open>CheckSMTP\<close> returns the empty result (every flag false) and a
  \<open>LookupError\<close>: for no record and no error, the one of category no-such-host with code
  0; for a resolver error, whatever \<open>ParseSMTPError\<close> makes of the error's text.
\<close>

theorem CheckSMTP_no_hosts:
  assumes "smtpCheckEnabled v"
    and "mxResolver v (DomainToASCII w domain) = (mxRecords, err)"
    and "err \<noteq> None \<or> mxRecords = []"
  shows "CheckSMTP w v domain username =
           ((Some zeroSMTP,
             Some (Lookup (case err of
                             Some e \<Rightarrow> ParseSMTPError (unicodeLower w) e
                           | None \<Rightarrow> Some \<lparr>Code = 0, Message = ErrNoSuchHost,
                                        Details = ''No MX records found''\<rparr>))), [])"
  using assms by (auto simp: CheckSMTP_def newLookupError_def split: option.splits)

text \<open>The theorem at a resolver that returns no record and no error.\<close>

theorem CheckSMTP_no_hosts_witness:
  "CheckSMTP (exampleWorld (rejectRcpt ''550 5.1.1 user unknown''))
     (exampleVerifier [] (\<lambda>d. ([], None))) ''example.org'' ''alice''
     = ((Some \<lparr>HostExists = False, FullInbox = False, CatchAll = False,
               Deliverable = False, Disabled = False, UsingAPI = False\<rparr>,
         Some (Lookup (Some \<lparr>Code = 0, Message = ErrNoSuchHost,
                         Details = ''No MX records found''\<rparr>))), [])"
  using CheckSMTP_no_hosts [of "exampleVerifier [] (\<lambda>d. ([], None))"
      "exampleWorld (rejectRcpt ''550 5.1.1 user unknown'')" "''example.org''" "[]" None
      "''alice''"]
  by (simp add: exampleVerifier_def exampleWorld_def zeroSMTP_def)

text \<open>
  Claim C6 as stated fails when the resolution fails: the category is the one the
  classifier finds in the resolver's error. A resolver that times out gives the
  category timeout, not no-such-host.
\<close>

theorem CheckSMTP_resolver_timeout:
  "CheckSMTP (exampleWorld (rejectRcpt ''550 5.1.1 user unknown''))
     (exampleVerifier []
        (\<lambda>d. ([], Some ''lookup example.org on 127.0.0.53:53: read udp 127.0.0.1:40114->127.0.0.53:53: i/o timeout'')))
     ''example.org'' ''alice''
     = ((Some zeroSMTP,
         Some (Lookup (Some \<lparr>Code = 0, Message = ErrTimeout,
           Details = ''lookup example.org on 127.0.0.53:53: read udp 127.0.0.1:40114->127.0.0.53:53: i/o timeout''\<rparr>))),
        [])
   \<and> ErrTimeout \<noteq> ErrNoSuchHost"
  by (simp add: CheckSMTP_def exampleVerifier_def exampleWorld_def classifier_defs Err_defs)

text \<open>
  Claim C10. Whenever the resolver returns a record list that is not empty, \<open>CheckMX\<close>
  returns \<open>HasMXRecord = True\<close> with these records and a nil error, also when the
  resolver reported an error with them; \<open>CheckMX\<close> returns an error only when the record
  list is empty.
\<close>

theorem CheckMX_records_win:
  assumes "mxResolver v (DomainToASCII w domain) = (mx, err)"
  shows "(mx \<noteq> [] \<longrightarrow>
            CheckMX w v domain = (Some \<lparr>HasMXRecord = True, Records = mx\<rparr>, None))
       \<and> (snd (CheckMX w v domain) \<noteq> None \<longrightarrow> mx = [])"
  using assms by (simp add: CheckMX_def)

text \<open>The theorem at a resolver that returns one record together with an error.\<close>

theorem CheckMX_records_win_witness:
  "CheckMX (exampleWorld (rejectRcpt ''550 5.1.1 user unknown''))
     (exampleVerifier []
        (\<lambda>d. ([\<lparr>Host = ''mx1.example.org.'', Pref = 10\<rparr>],
               Some ''lookup example.org: DNS response contained records which contain invalid names'')))
     ''example.org''
     = (Some \<lparr>HasMXRecord = True,
               Records = [\<lparr>Host = ''mx1.example.org.'', Pref = 10\<rparr>]\<rparr>, None)"
  using CheckMX_records_win [of
      "exampleVerifier []
        (\<lambda>d. ([\<lparr>Host = ''mx1.example.org.'', Pref = 10\<rparr>],
               Some ''lookup example.org: DNS response contained records which contain invalid names''))"
      "exampleWorld (rejectRcpt ''550 5.1.1 user unknown'')" "''example.org''"
      "[\<lparr>Host = ''mx1.example.org.'', Pref = 10\<rparr>]"
      "Some ''lookup example.org: DNS response contained records which contain invalid names''"]
  by (simp add: exampleVerifier_def exampleWorld_def)

section \<open>The probe: claims C3, C4, C5, C7 and C9\<close>

text \<open>
  Claim C7. For the empty host list \<open>CheckSMTPForMX\<close> returns no result and no error,
  and makes no call on any client.
\<close>

theorem CheckSMTPForMX_no_hosts:
  "CheckSMTPForMX w v [] domain username = ((None, None), [])"
  by (simp add: CheckSMTPForMX_def)

text \<open>The theorem in a world whose server would accept every recipient.\<close>

theorem CheckSMTPForMX_no_hosts_witness:
  "CheckSMTPForMX (exampleWorld (memoryless (\<lambda>c. None)))
     (exampleVerifier [] (\<lambda>d. ([], None))) [] ''example.org'' ''alice'' = ((None, None), [])"
  by (rule CheckSMTPForMX_no_hosts)

text \<open>
  Claim C4, as amended. For every host list that is not empty, the vendor short-circuit
  selects the first registered verifier, in the order in which the registry is walked,
  that supports some host of the list (lowered); \<open>CheckSMTPForMX\<close> then returns the
  outcome of that verifier's check, its result (when not nil) tagged \<open>UsingAPI = True\<close>,
  and makes no call on any client.
\<close>

theorem vendor_short_circuit_first_vendor:
  assumes "hosts \<noteq> []"
    and "find (recognizes (unicodeLower w) hosts) (map snd (apiVerifiers v)) = Some a"
    and "check a domain username = (res, err)"
  shows "CheckSMTPForMX w v hosts domain username
           = ((map_option (\<lambda>r. r\<lparr>UsingAPI := True\<rparr>) res, err), [])"
  using assms
  by (cases hosts) (simp_all add: CheckSMTPForMX_def checkByAPI_find tagUsingAPI_def)

text \<open>
  The theorem with two verifiers registered and two hosts, the second host being the
  one that the first verifier supports.
\<close>

theorem vendor_short_circuit_first_vendor_witness:
  "CheckSMTPForMX (exampleWorld (memoryless (\<lambda>c. None)))
     (exampleVerifier
        [(''gmail'', vendorFor ''gmail-smtp-in.l.google.com.'' (zeroSMTP\<lparr>HostExists := True\<rparr>)),
         (''yahoo'', vendorFor ''mta5.am0.yahoodns.net.''
                      (zeroSMTP\<lparr>HostExists := True, Deliverable := True\<rparr>))]
        (\<lambda>d. ([], None)))
     [''MTA5.am0.yahoodns.net.'', ''gmail-smtp-in.l.google.com.''] ''example.org'' ''alice''
   = ((Some \<lparr>HostExists = True, FullInbox = False, CatchAll = False,
             Deliverable = False, Disabled = False, UsingAPI = True\<rparr>, None), [])"
  using vendor_short_circuit_first_vendor [of
      "[''MTA5.am0.yahoodns.net.'', ''gmail-smtp-in.l.google.com.'']"
      "exampleWorld (memoryless (\<lambda>c. None))"
      "exampleVerifier
        [(''gmail'', vendorFor ''gmail-smtp-in.l.google.com.'' (zeroSMTP\<lparr>HostExists := True\<rparr>)),
         (''yahoo'', vendorFor ''mta5.am0.yahoodns.net.''
                      (zeroSMTP\<lparr>HostExists := True, Deliverable := True\<rparr>))]
        (\<lambda>d. ([], None))"
      "vendorFor ''gmail-smtp-in.l.google.com.'' (zeroSMTP\<lparr>HostExists := True\<rparr>)"
      "''example.org''" "''alice''" "Some (zeroSMTP\<lparr>HostExists := True\<rparr>)" None]
  by (simp add: world_defs recognizes_def ToLower_def isASCII_def lowerByte_def byte_def
      char_of_def bit_Suc_0_iff)

text \<open>
  Claim C4 as stated fails: it is not the first host match that wins. With the registry
  walked in the order gmail, yahoo and a host list whose first host is yahoo's and
  whose second is gmail's, the first host is supported by the yahoo verifier (which the
  specification's reading selects), and the code returns the gmail verifier's answer.
\<close>

theorem vendor_short_circuit_not_first_host:
  "fst (CheckSMTPForMX (exampleWorld (memoryless (\<lambda>c. None)))
     (exampleVerifier
        [(''gmail'', vendorFor ''gmail-smtp-in.l.google.com.'' (zeroSMTP\<lparr>HostExists := True\<rparr>)),
         (''yahoo'', vendorFor ''mta5.am0.yahoodns.net.''
                      (zeroSMTP\<lparr>HostExists := True, Deliverable := True\<rparr>))]
        (\<lambda>d. ([], None)))
     [''mta5.am0.yahoodns.net.'', ''gmail-smtp-in.l.google.com.''] ''example.org'' ''alice'')
   = (Some \<lparr>HostExists = True, FullInbox = False, CatchAll = False,
             Deliverable = False, Disabled = False, UsingAPI = True\<rparr>, None)
   \<and> map_option (\<lambda>a. tagUsingAPI (check a ''example.org'' ''alice''))
       (firstHostMatch (\<lambda>s. s)
          [vendorFor ''gmail-smtp-in.l.google.com.'' (zeroSMTP\<lparr>HostExists := True\<rparr>),
           vendorFor ''mta5.am0.yahoodns.net.''
             (zeroSMTP\<lparr>HostExists := True, Deliverable := True\<rparr>)]
          [''mta5.am0.yahoodns.net.'', ''gmail-smtp-in.l.google.com.''])
     = Some (Some \<lparr>HostExists = True, FullInbox = False, CatchAll = False,
                   Deliverable = True, Disabled = False, UsingAPI = True\<rparr>, None)"
  by (simp add: world_defs CheckSMTPForMX_def tagUsingAPI_def ToLower_def isASCII_def
      lowerByte_def byte_def)

text \<open>
  Claim C3, as amended. When the catch-all probe is reached (a client was obtained,
  \<open>EHLO\<close> and \<open>MAIL\<close> were accepted, the check is enabled and the domain is not a free
  one) and the \<open>RCPT\<close> of the random address is rejected with an error that classifies to
  \<open>e\<close>: a full-inbox classification sets \<open>FullInbox\<close> and leaves \<open>CatchAll\<close> set; a
  not-allowed classification sets \<open>Disabled\<close> and leaves \<open>CatchAll\<close> set; server
  unavailable and every other classification clear \<open>CatchAll\<close> and set neither flag.
\<close>

theorem catch_all_probe_rejection_flags:
  assumes "hosts \<noteq> []"
    and "checkByAPI (unicodeLower w) (map snd (apiVerifiers v)) hosts domain username = None"
    and "newSMTPClient w hosts (proxyURI v) (dialerProvider v) [] = Inr (c, h)"
    and "c [Hello (helloName v)] = None"
    and "c [Hello (helloName v), Mail (fromEmail v)] = None"
    and "catchAllCheckEnabled v"
    and "\<not> IsFreeDomain w domain"
    and "c [Hello (helloName v), Mail (fromEmail v), Rcpt (GenerateRandomEmail w domain)]
           = Some err"
    and "ParseSMTPError (unicodeLower w) err = Some e"
  shows "map_option FullInbox (fst (fst (CheckSMTPForMX w v hosts domain username)))
           = Some (Message e = ErrFullInbox)
       \<and> map_option Disabled (fst (fst (CheckSMTPForMX w v hosts domain username)))
           = Some (Message e = ErrNotAllowed)
       \<and> map_option CatchAll (fst (fst (CheckSMTPForMX w v hosts domain username)))
           = Some (Message e = ErrFullInbox \<or> Message e = ErrNotAllowed)"
proof -
  have ne: "ErrFullInbox \<noteq> ErrNotAllowed"
    by (simp add: Err_defs)
  from assms ne show ?thesis
    by (cases hosts)
       (simp_all add: probe_defs Let_def zeroSMTP_def split: option.splits)
qed

text \<open>
  The theorem where the server rejects the random address with a 554 reply, which
  classifies as not-allowed: \<open>Disabled\<close> and \<open>CatchAll\<close> are set, \<open>FullInbox\<close> is not.
\<close>

theorem catch_all_probe_rejection_flags_witness:
  "map_option FullInbox
     (fst (fst (CheckSMTPForMX (exampleWorld (rejectRcpt ''554 5.7.1 Relay access denied''))
          (exampleVerifier [] (\<lambda>d. ([], None)))
          [''mx0.example.org.'', ''mx1.example.org.''] ''example.org'' ''alice''))) = Some False
   \<and> map_option Disabled
     (fst (fst (CheckSMTPForMX (exampleWorld (rejectRcpt ''554 5.7.1 Relay access denied''))
          (exampleVerifier [] (\<lambda>d. ([], None)))
          [''mx0.example.org.'', ''mx1.example.org.''] ''example.org'' ''alice''))) = Some True
   \<and> map_option CatchAll
     (fst (fst (CheckSMTPForMX (exampleWorld (rejectRcpt ''554 5.7.1 Relay access denied''))
          (exampleVerifier [] (\<lambda>d. ([], None)))
          [''mx0.example.org.'', ''mx1.example.org.''] ''example.org'' ''alice''))) = Some True"
  using catch_all_probe_rejection_flags [of "[''mx0.example.org.'', ''mx1.example.org.'']"
      "exampleWorld (rejectRcpt ''554 5.7.1 Relay access denied'')"
      "exampleVerifier [] (\<lambda>d. ([], None))" "''example.org''" "''alice''"
      "rejectRcpt ''554 5.7.1 Relay access denied''" "''mx1.example.org.''"
      "''554 5.7.1 Relay access denied''"
      "\<lparr>Code = 554, Message = ErrNotAllowed, Details = ''554 5.7.1 Relay access denied''\<rparr>"]
  by (simp add: world_defs classifier_defs Err_defs)

text \<open>
  Claim C3 as stated fails: a full-inbox classification does not leave the result "not
  catch-all". When the server rejects the random address with a 552 reply, the result
  has \<open>FullInbox\<close> and \<open>CatchAll\<close> both set (and the probe ends there, without error).
\<close>

theorem catch_all_probe_full_inbox_keeps_catch_all:
  "map_option Message (ParseSMTPError (\<lambda>s. s) ''552 5.2.2 Mailbox full'') = Some ErrFullInbox
   \<and> fst (CheckSMTPForMX (exampleWorld (rejectRcpt ''552 5.2.2 Mailbox full''))
          (exampleVerifier [] (\<lambda>d. ([], None)))
          [''mx0.example.org.'', ''mx1.example.org.''] ''example.org'' ''alice'')
     = (Some \<lparr>HostExists = True, FullInbox = True, CatchAll = True,
               Deliverable = False, Disabled = False, UsingAPI = False\<rparr>, None)"
  by (simp add: world_defs probe_defs classifier_defs Err_defs)

text \<open>
  Claim C5. In every run of \<open>CheckSMTPForMX\<close> on the SMTP path (no verifier supports a
  host) whose result is flagged catch-all, the result is not deliverable, there is no
  error, and the calls made on the client are \<open>Hello\<close>, \<open>Mail\<close>, the \<open>Rcpt\<close> of the random
  address and \<open>Quit\<close>: no \<open>Rcpt\<close> of the recipient is attempted, whatever the username.
\<close>

theorem catch_all_skips_recipient_probe:
  assumes "checkByAPI (unicodeLower w) (map snd (apiVerifiers v)) hosts domain username = None"
    and "CheckSMTPForMX w v hosts domain username = ((Some ret, err), t)"
    and "CatchAll ret"
  shows "\<not> Deliverable ret \<and> err = None
         \<and> t = [Hello (helloName v), Mail (fromEmail v),
                Rcpt (GenerateRandomEmail w domain), Quit]"
  using assms
  by (auto simp: CheckSMTPForMX_def Let_def zeroSMTP_def
        split: if_splits option.splits sum.splits prod.splits
        dest: catchAllProbe_result(1,2))

text \<open>
  The theorem where the server accepts every recipient and the username \<open>alice\<close> is
  supplied.
\<close>

theorem catch_all_skips_recipient_probe_witness:
  "CheckSMTPForMX (exampleWorld (memoryless (\<lambda>c. None)))
     (exampleVerifier [] (\<lambda>d. ([], None)))
     [''mx0.example.org.'', ''mx1.example.org.''] ''example.org'' ''alice''
   = ((Some \<lparr>HostExists = True, FullInbox = False, CatchAll = True,
             Deliverable = False, Disabled = False, UsingAPI = False\<rparr>, None),
      [Hello ''localhost'', Mail ''user@example.org'',
       Rcpt ''k3Jd82hsQp0zLm4xVb7nTy1cWe9rUa5G@example.org'', Quit])"
proof -
  let ?w = "exampleWorld (memoryless (\<lambda>c. None))"
  let ?v = "exampleVerifier [] (\<lambda>d. ([], None))"
  let ?hosts = "[''mx0.example.org.'', ''mx1.example.org.'']"
  let ?ret = "\<lparr>HostExists = True, FullInbox = False, CatchAll = True,
             Deliverable = False, Disabled = False, UsingAPI = False\<rparr>"
  obtain err t where run: "CheckSMTPForMX ?w ?v ?hosts ''example.org'' ''alice''
      = ((Some ?ret, err), t)"
    by (simp add: world_defs probe_defs)
  have api: "checkByAPI (unicodeLower ?w) (map snd (apiVerifiers ?v)) ?hosts
      ''example.org'' ''alice'' = None"
    by (simp add: exampleVerifier_def)
  have "\<not> Deliverable ?ret \<and> err = None
         \<and> t = [Hello (helloName ?v), Mail (fromEmail ?v),
                Rcpt (GenerateRandomEmail ?w ''example.org''), Quit]"
    by (rule catch_all_skips_recipient_probe [OF api run]) simp
  with run show ?thesis
    by (simp add: exampleWorld_def exampleVerifier_def GenerateRandomEmail_def)
qed

text \<open>
  Claim C9. In every result that \<open>CheckSMTPForMX\<close> returns on the SMTP path (no verifier
  supports a host), \<open>FullInbox\<close> and \<open>Disabled\<close> are not both true.
\<close>

theorem FullInbox_Disabled_exclusive:
  assumes "checkByAPI (unicodeLower w) (map snd (apiVerifiers v)) hosts domain username = None"
    and "fst (fst (CheckSMTPForMX w v hosts domain username)) = Some ret"
  shows "\<not> (FullInbox ret \<and> Disabled ret)"
  using assms
  by (auto simp: CheckSMTPForMX_def Let_def zeroSMTP_def
        split: if_splits option.splits sum.splits prod.splits
        dest!: catchAllProbe_result(3))

text \<open>The theorem where the server rejects the random address with a 552 reply.\<close>

theorem FullInbox_Disabled_exclusive_witness:
  "fst (fst (CheckSMTPForMX (exampleWorld (rejectRcpt ''552 5.2.2 Mailbox full''))
          (exampleVerifier [] (\<lambda>d. ([], None)))
          [''mx0.example.org.'', ''mx1.example.org.''] ''example.org'' ''alice''))
     = Some \<lparr>HostExists = True, FullInbox = True, CatchAll = True,
               Deliverable = False, Disabled = False, UsingAPI = False\<rparr>
   \<and> \<not> (FullInbox \<lparr>HostExists = True, FullInbox = True, CatchAll = True,
               Deliverable = False, Disabled = False, UsingAPI = False\<rparr>
        \<and> Disabled \<lparr>HostExists = True, FullInbox = True, CatchAll = True,
               Deliverable = False, Disabled = False, UsingAPI = False\<rparr>)"
proof -
  let ?w = "exampleWorld (rejectRcpt ''552 5.2.2 Mailbox full'')"
  let ?v = "exampleVerifier [] (\<lambda>d. ([], None))"
  let ?hosts = "[''mx0.example.org.'', ''mx1.example.org.'']"
  let ?ret = "\<lparr>HostExists = True, FullInbox = True, CatchAll = True,
               Deliverable = False, Disabled = False, UsingAPI = False\<rparr>"
  have run: "fst (fst (CheckSMTPForMX ?w ?v ?hosts ''example.org'' ''alice'')) = Some ?ret"
    by (simp add: world_defs probe_defs classifier_defs Err_defs)
  have api: "checkByAPI (unicodeLower ?w) (map snd (apiVerifiers ?v)) ?hosts
      ''example.org'' ''alice'' = None"
    by (simp add: exampleVerifier_def)
  from run FullInbox_Disabled_exclusive [OF api run] show ?thesis
    by (rule conjI)
qed

end
